theory Spec2Isabelle
  imports Complex_Main
begin

section \<open>Values exchanged with the surroundings\<close>

text \<open>
  The coordinates of a \<open>DraggableElement\<close> are C++ \<open>float\<close>s. The coordinator never
  computes with them: it copies them and compares them with \<open><\<close> and \<open><=\<close>. A value
  is therefore a finite number, an infinity or a NaN, and only the IEEE comparisons are
  defined. Every finite float is a rational number (\<open>-0.0\<close> and \<open>0.0\<close> compare equal and
  are both \<open>Finite 0\<close>), so a statement for all \<open>Finite q\<close> covers every finite float.
\<close>

datatype fl = Finite rat | PosInf | NegInf | NaN

fun fl_less :: "fl \<Rightarrow> fl \<Rightarrow> bool" where
  "fl_less NaN _ = False"
| "fl_less _ NaN = False"
| "fl_less (Finite a) (Finite b) = (a < b)"
| "fl_less (Finite _) PosInf = True"
| "fl_less (Finite _) NegInf = False"
| "fl_less PosInf _ = False"
| "fl_less NegInf NegInf = False"
| "fl_less NegInf _ = True"

fun fl_le :: "fl \<Rightarrow> fl \<Rightarrow> bool" where
  "fl_le NaN _ = False"
| "fl_le _ NaN = False"
| "fl_le (Finite a) (Finite b) = (a \<le> b)"
| "fl_le (Finite _) PosInf = True"
| "fl_le (Finite _) NegInf = False"
| "fl_le PosInf PosInf = True"
| "fl_le PosInf _ = False"
| "fl_le NegInf _ = True"

text \<open>\<open>struct DraggableElement\<close> of WorkspaceManager.h, field by field.\<close>

record DraggableElement =
  elem_id :: int
  elem_type :: string
  elem_x :: fl
  elem_y :: fl
  elem_width :: fl
  elem_height :: fl
  isDocked :: bool
  dockLocation :: string

text \<open>
  Modelled from the spec: \<open>core/Error.h\<close> is not among the sources. The code builds an
  \<open>Error\<close> with \<open>Error::Success()\<close> or \<open>Error(message)\<close> and reads it with
  \<open>IsSuccess()\<close> and \<open>GetMessage()\<close>; the spec calls it a result value carrying a
  descriptive message.
\<close>

datatype Error = Success | Failure string

fun IsSuccess :: "Error \<Rightarrow> bool" where
  "IsSuccess Success = True"
| "IsSuccess (Failure _) = False"

fun GetMessage :: "Error \<Rightarrow> string" where
  "GetMessage Success = []"
| "GetMessage (Failure m) = m"

text \<open>
  A C++ call either returns or throws. A handler \<open>catch (const std::exception& e)\<close>
  catches the exceptions derived from \<open>std::exception\<close> (they carry \<open>what()\<close>) and
  no others.
\<close>

datatype exn = StdException string | OtherException

datatype 'a outcome = Returns 'a | Throws exn

text \<open>
  A \<open>nlohmann::json\<close> value. An object is a \<open>std::map\<close> from keys to values: unique
  keys, looked up by key.
\<close>

datatype json =
    JNull
  | JBool bool
  | JInt int
  | JFloat fl
  | JString string
  | JArray "json list"
  | JObject "string \<Rightarrow> json option"

text \<open>
  The library's failures: \<open>at(key)\<close> on an object without the key, \<open>at(key)\<close> on a
  value that is no object, and the conversion to \<open>std::string\<close> of a value that is no
  string. Each throws a \<open>json::exception\<close>, which derives from \<open>std::exception\<close>.
\<close>

datatype json_fault = Key_Not_Found string | Not_An_Object | Not_A_String

section \<open>The collaborators and the platform\<close>

text \<open>
  What an operation asks of its surroundings during one call: the three managers
  (\<open>WindowManager.h\<close>, \<open>DockingManager.h\<close> and \<open>ToolbarManager.h\<close> are not among the
  sources, so their answers are parameters), the JSON library, the clock and the file
  system. The main window is given by its width and height as the comparison with a
  \<open>float\<close> sees them.

  Three more answers come from the platform. \<open>allocation_fault\<close> is the text of the
  \<open>std::bad_alloc\<close> that \<open>new DraggableElement(element)\<close> throws, if it throws.
  \<open>log_info\<close> is the macro \<open>LOG_INFO\<close> (\<open>core/Log.h\<close> is not among the sources) on the
  type and the id of the element. \<open>regex_match_returns\<close> says whether
  \<open>std::regex_match\<close> returns on a string: the matcher of the standard library recurses
  along the characters it has matched, and on a long string it exhausts the stack, so
  that the call never returns.
\<close>

record world =
  wm_GetMainWindow :: "(fl \<times> fl) option outcome"
  wm_UpdateWindowPosition :: "int \<Rightarrow> fl \<Rightarrow> fl \<Rightarrow> unit outcome"
  wm_SerializeState :: "json outcome"
  wm_DeserializeState :: "json \<Rightarrow> Error outcome"
  dm_DockElement :: "int \<Rightarrow> string \<Rightarrow> Error outcome"
  dm_SerializeState :: "json outcome"
  dm_DeserializeState :: "json \<Rightarrow> Error outcome"
  tm_UpdateToolbarPosition :: "int \<Rightarrow> fl \<Rightarrow> fl \<Rightarrow> unit outcome"
  tm_SerializeState :: "json outcome"
  tm_DeserializeState :: "json \<Rightarrow> Error outcome"
  json_parse :: "string \<Rightarrow> json outcome"
  json_dump :: "json \<Rightarrow> string outcome"
  json_what :: "json_fault \<Rightarrow> string"
  clock_now :: int
  opens_for_reading :: "string \<Rightarrow> bool"
  opens_for_writing :: "string \<Rightarrow> bool"
  exists_fault :: "string \<Rightarrow> string option"
  remove_fault :: "string \<Rightarrow> string option"
  directory_entries :: "string \<Rightarrow> string list outcome"
  allocation_fault :: "DraggableElement \<Rightarrow> string option"
  log_info :: "string \<Rightarrow> int \<Rightarrow> unit outcome"
  regex_match_returns :: "string \<Rightarrow> bool"

text \<open>Every call the coordinator makes on a manager or on the observer, in order.\<close>

datatype call =
    Call_GetMainWindow
  | Call_UpdateWindowPosition int fl fl
  | Call_Window_SerializeState
  | Call_Window_DeserializeState json
  | Call_DockElement int string
  | Call_Docking_SerializeState
  | Call_Docking_DeserializeState json
  | Call_UpdateToolbarPosition int fl fl
  | Call_Toolbar_SerializeState
  | Call_Toolbar_DeserializeState json
  | Call_Observer DraggableElement DraggableElement

section \<open>The coordinator's state\<close>

text \<open>
  \<open>current_drag_\<close> is an owning pointer, null when no drag is active;
  \<open>drag_drop_callback_\<close> is a \<open>std::function\<close>, empty when no observer is registered.
  \<open>files\<close> is the file system, from the path as the coordinator writes it to the
  content of the file, and \<open>calls\<close> the calls made so far, the latest last.
\<close>

record wm_state =
  current_drag :: "DraggableElement option"
  drag_drop_callback :: "(DraggableElement \<Rightarrow> DraggableElement \<Rightarrow> unit outcome) option"
  files :: "string \<Rightarrow> string option"
  calls :: "call list"

type_synonym 'a action = "wm_state \<Rightarrow> 'a outcome \<times> wm_state"

definition returns :: "'a \<Rightarrow> 'a action" where
  "returns a = (\<lambda>s. (Returns a, s))"

definition lift :: "'a outcome \<Rightarrow> 'a action" where
  "lift r = (\<lambda>s. (r, s))"

definition bind :: "'a action \<Rightarrow> ('a \<Rightarrow> 'b action) \<Rightarrow> 'b action" where
  "bind m f = (\<lambda>s. case m s of
       (Returns a, s') \<Rightarrow> f a s'
     | (Throws e, s') \<Rightarrow> (Throws e, s'))"

definition seq :: "'a action \<Rightarrow> 'b action \<Rightarrow> 'b action" where
  "seq m n = bind m (\<lambda>_. n)"

definition catch_std :: "'a action \<Rightarrow> (string \<Rightarrow> 'a action) \<Rightarrow> 'a action" where
  "catch_std m h = (\<lambda>s. case m s of
       (Throws (StdException what), s') \<Rightarrow> h what s'
     | r \<Rightarrow> r)"

definition external :: "call \<Rightarrow> 'a outcome \<Rightarrow> 'a action" where
  "external c r = (\<lambda>s. (r, s\<lparr>calls := calls s @ [c]\<rparr>))"

definition clear_drag :: "unit action" where
  "clear_drag = (\<lambda>s. (Returns (), s\<lparr>current_drag := None\<rparr>))"

section \<open>Drag and drop\<close>

text \<open>
  \<open>BeginDrag\<close> copies the element into a new object, stores the pointer and then logs
  the start of the drag; it has no handler, so what the allocation or the logging
  throws leaves it. A caller uses the coordinator from one thread and an observer does
  not call back into it.
\<close>

definition BeginDrag :: "world \<Rightarrow> DraggableElement \<Rightarrow> Error action" where
  "BeginDrag w element = (\<lambda>s.
     case current_drag s of
       Some _ \<Rightarrow> (Returns (Failure ''A drag operation is already in progress''), s)
     | None \<Rightarrow>
         (case allocation_fault w element of
            Some what \<Rightarrow> (Throws (StdException what), s)
          | None \<Rightarrow>
              bind (lift (log_info w (elem_type element) (elem_id element)))
                (\<lambda>_. returns Success) (s\<lparr>current_drag := Some element\<rparr>)))"

definition UpdateDragPosition :: "fl \<Rightarrow> fl \<Rightarrow> Error action" where
  "UpdateDragPosition x y = (\<lambda>s.
     case current_drag s of
       None \<Rightarrow> (Returns (Failure ''No drag operation in progress''), s)
     | Some d \<Rightarrow> (Returns Success, s\<lparr>current_drag := Some (d\<lparr>elem_x := x, elem_y := y\<rparr>)\<rparr>))"

definition IsValidDropTarget :: "world \<Rightarrow> fl \<Rightarrow> fl \<Rightarrow> bool action" where
  "IsValidDropTarget w x y =
     (if fl_less x (Finite 0) \<or> fl_less y (Finite 0) then returns False
      else bind (external Call_GetMainWindow (wm_GetMainWindow w)) (\<lambda>main_window.
        case main_window of
          None \<Rightarrow> returns False
        | Some (width, height) \<Rightarrow> returns (fl_le x width \<and> fl_le y height)))"

definition notify_observer :: "DraggableElement \<Rightarrow> DraggableElement \<Rightarrow> unit action" where
  "notify_observer d target = (\<lambda>s.
     case drag_drop_callback s of
       None \<Rightarrow> (Returns (), s)
     | Some cb \<Rightarrow> external (Call_Observer d target) (cb d target) s)"

definition update_position :: "world \<Rightarrow> DraggableElement \<Rightarrow> DraggableElement \<Rightarrow> unit action" where
  "update_position w d target =
     (if elem_type d = ''window'' then
        external (Call_UpdateWindowPosition (elem_id d) (elem_x target) (elem_y target))
          (wm_UpdateWindowPosition w (elem_id d) (elem_x target) (elem_y target))
      else if elem_type d = ''toolbar'' then
        external (Call_UpdateToolbarPosition (elem_id d) (elem_x target) (elem_y target))
          (tm_UpdateToolbarPosition w (elem_id d) (elem_x target) (elem_y target))
      else returns ())"

text \<open>The part of the \<open>try\<close> block of \<open>EndDrag\<close> after the docking step.\<close>

definition EndDrag_place :: "world \<Rightarrow> DraggableElement \<Rightarrow> DraggableElement \<Rightarrow> Error action" where
  "EndDrag_place w d target =
     seq (notify_observer d target)
       (seq (update_position w d target)
         (seq clear_drag (returns Success)))"

text \<open>The \<open>try\<close> block of \<open>EndDrag\<close>; \<open>d\<close> is \<open>*current_drag_\<close>.\<close>

definition EndDrag_try :: "world \<Rightarrow> DraggableElement \<Rightarrow> DraggableElement \<Rightarrow> Error action" where
  "EndDrag_try w d target =
     bind (IsValidDropTarget w (elem_x target) (elem_y target)) (\<lambda>valid.
       if \<not> valid then seq clear_drag (returns (Failure ''Invalid drop target location''))
       else if isDocked target then
         bind (external (Call_DockElement (elem_id d) (dockLocation target))
                 (dm_DockElement w (elem_id d) (dockLocation target))) (\<lambda>result.
           if \<not> IsSuccess result then seq clear_drag (returns result)
           else EndDrag_place w d target)
       else EndDrag_place w d target)"

definition EndDrag :: "world \<Rightarrow> DraggableElement \<Rightarrow> Error action" where
  "EndDrag w target = (\<lambda>s.
     case current_drag s of
       None \<Rightarrow> (Returns (Failure ''No drag operation in progress''), s)
     | Some d \<Rightarrow>
         catch_std (EndDrag_try w d target) (\<lambda>what.
           seq clear_drag
             (returns (Failure (''Failed to complete drag operation: '' @ what)))) s)"

definition SetDragDropCallback ::
  "(DraggableElement \<Rightarrow> DraggableElement \<Rightarrow> unit outcome) option \<Rightarrow> wm_state \<Rightarrow> wm_state" where
  "SetDragDropCallback callback s = s\<lparr>drag_drop_callback := callback\<rparr>"

definition GetDraggedElement :: "wm_state \<Rightarrow> DraggableElement option" where
  "GetDraggedElement s = current_drag s"

section \<open>Workspace files\<close>

text \<open>
  \<open>std::filesystem::path("workspaces") / (name + ".json")\<close> under the POSIX path
  rules: appending an absolute path replaces the left operand.
\<close>

definition GetWorkspacePath :: "string \<Rightarrow> string" where
  "GetWorkspacePath name =
     (case name @ ''.json'' of
        [] \<Rightarrow> ''workspaces/''
      | c # cs \<Rightarrow> if c = CHR ''/'' then c # cs else ''workspaces/'' @ c # cs)"

text \<open>
  The pattern \<open>^[a-zA-Z0-9_-]+$\<close>: a bracket expression of three ranges and two single
  characters, repeated at least once. \<open>std::regex_match\<close> succeeds only when the
  pattern matches the whole string.
\<close>

datatype class_item = Range char char | Single char

definition valid_name_class :: "class_item list" where
  "valid_name_class =
     [Range (CHR ''a'') (CHR ''z''), Range (CHR ''A'') (CHR ''Z''),
      Range (CHR ''0'') (CHR ''9''), Single (CHR ''_''), Single (CHR ''-'')]"

fun in_item :: "class_item \<Rightarrow> char \<Rightarrow> bool" where
  "in_item (Range lo hi) c =
     ((of_char lo :: nat) \<le> of_char c \<and> (of_char c :: nat) \<le> of_char hi)"
| "in_item (Single a) c = (c = a)"

definition in_class :: "class_item list \<Rightarrow> char \<Rightarrow> bool" where
  "in_class cls c = list_ex (\<lambda>i. in_item i c) cls"

definition regex_match_plus :: "class_item list \<Rightarrow> string \<Rightarrow> bool" where
  "regex_match_plus cls str = (str \<noteq> [] \<and> list_all (in_class cls) str)"

text \<open>
  The empty name is refused before the matcher runs. On any other name the result is
  there only if \<open>std::regex_match\<close> returns: \<open>None\<close> is the call that never returns.
\<close>

definition ValidateWorkspaceName :: "world \<Rightarrow> string \<Rightarrow> Error option" where
  "ValidateWorkspaceName w name =
     (if name = [] then Some (Failure ''Workspace name cannot be empty'')
      else if \<not> regex_match_returns w name then None
      else if \<not> regex_match_plus valid_name_class name then
        Some (Failure
          ''Workspace name can only contain letters, numbers, underscores, and hyphens'')
      else Some Success)"

definition drag_state_json :: "DraggableElement \<Rightarrow> json" where
  "drag_state_json d = JObject
     (Map.empty
       (''element_id'' \<mapsto> JInt (elem_id d),
        ''element_type'' \<mapsto> JString (elem_type d),
        ''position_x'' \<mapsto> JFloat (elem_x d),
        ''position_y'' \<mapsto> JFloat (elem_y d),
        ''is_docked'' \<mapsto> JBool (isDocked d),
        ''dock_location'' \<mapsto> JString (dockLocation d)))"

definition SerializeCurrentState :: "world \<Rightarrow> json action" where
  "SerializeCurrentState w =
     bind (external Call_Window_SerializeState (wm_SerializeState w)) (\<lambda>windows.
     bind (external Call_Docking_SerializeState (dm_SerializeState w)) (\<lambda>docking.
     bind (external Call_Toolbar_SerializeState (tm_SerializeState w)) (\<lambda>toolbars. (\<lambda>s.
       let state = Map.empty
             (''windows'' \<mapsto> windows, ''docking'' \<mapsto> docking, ''toolbars'' \<mapsto> toolbars);
           state = (case current_drag s of
                      Some d \<Rightarrow> state(''drag_state'' \<mapsto> drag_state_json d)
                    | None \<Rightarrow> state);
           state = state(''version'' \<mapsto> JString ''1.0'',
                         ''timestamp'' \<mapsto> JInt (clock_now w))
       in (Returns (JObject state), s)))))"

text \<open>
  Opening the \<open>std::ofstream\<close> creates the file or empties it; \<open>dump\<close> runs after
  that, and the text is written when it returns.
\<close>

definition write_document :: "world \<Rightarrow> string \<Rightarrow> json \<Rightarrow> Error action" where
  "write_document w path state = (\<lambda>s.
     if \<not> opens_for_writing w path then
       (Returns (Failure ''Failed to open workspace file for writing''), s)
     else
       bind (lift (json_dump w state)) (\<lambda>text s'.
         (Returns Success, s'\<lparr>files := (files s')(path \<mapsto> text)\<rparr>))
         (s\<lparr>files := (files s)(path \<mapsto> [])\<rparr>))"

text \<open>The \<open>try\<close> block of \<open>SaveWorkspace\<close>.\<close>

definition SaveWorkspace_try :: "world \<Rightarrow> string \<Rightarrow> Error action" where
  "SaveWorkspace_try w name =
     bind (SerializeCurrentState w) (write_document w (GetWorkspacePath name))"

text \<open>
  The name is validated before the \<open>try\<close> block is entered. When the validation does
  not return, neither does \<open>SaveWorkspace\<close>: its result is \<open>None\<close>.
\<close>

definition SaveWorkspace ::
  "world \<Rightarrow> string \<Rightarrow> wm_state \<Rightarrow> (Error outcome \<times> wm_state) option" where
  "SaveWorkspace w name = (\<lambda>s.
     case ValidateWorkspaceName w name of
       None \<Rightarrow> None
     | Some validation_result \<Rightarrow>
         Some (if \<not> IsSuccess validation_result then (Returns validation_result, s)
               else
                 catch_std (SaveWorkspace_try w name)
                   (\<lambda>what. returns (Failure (''Failed to save workspace: '' @ what))) s))"

definition json_at :: "world \<Rightarrow> json \<Rightarrow> string \<Rightarrow> json outcome" where
  "json_at w j key =
     (case j of
        JObject m \<Rightarrow>
          (case m key of
             Some v \<Rightarrow> Returns v
           | None \<Rightarrow> Throws (StdException (json_what w (Key_Not_Found key))))
      | _ \<Rightarrow> Throws (StdException (json_what w Not_An_Object)))"

definition json_get_string :: "world \<Rightarrow> json \<Rightarrow> string outcome" where
  "json_get_string w j =
     (case j of
        JString str \<Rightarrow> Returns str
      | _ \<Rightarrow> Throws (StdException (json_what w Not_A_String)))"

text \<open>The \<open>try\<close> block of \<open>DeserializeAndApplyState\<close>.\<close>

definition DeserializeAndApplyState_try :: "world \<Rightarrow> json \<Rightarrow> Error action" where
  "DeserializeAndApplyState_try w state =
       (bind (lift (json_at w state ''version'')) (\<lambda>v.
        bind (lift (json_get_string w v)) (\<lambda>version.
        if version \<noteq> ''1.0'' then returns (Failure ''Unsupported workspace format version'')
        else
        bind (lift (json_at w state ''windows'')) (\<lambda>windows.
        bind (external (Call_Window_DeserializeState windows)
                (wm_DeserializeState w windows)) (\<lambda>window_result.
        if \<not> IsSuccess window_result then returns window_result
        else
        bind (lift (json_at w state ''docking'')) (\<lambda>docking.
        bind (external (Call_Docking_DeserializeState docking)
                (dm_DeserializeState w docking)) (\<lambda>docking_result.
        if \<not> IsSuccess docking_result then returns docking_result
        else
        bind (lift (json_at w state ''toolbars'')) (\<lambda>toolbars.
        bind (external (Call_Toolbar_DeserializeState toolbars)
                (tm_DeserializeState w toolbars)) (\<lambda>toolbar_result.
        if \<not> IsSuccess toolbar_result then returns toolbar_result
        else returns Success)))))))))"

definition DeserializeAndApplyState :: "world \<Rightarrow> json \<Rightarrow> Error action" where
  "DeserializeAndApplyState w state =
     catch_std (DeserializeAndApplyState_try w state)
       (\<lambda>what. returns (Failure (''Failed to apply workspace state: '' @ what)))"

text \<open>
  The \<open>std::ifstream\<close> is open when the file is there and can be read; \<open>file >> state\<close>
  parses its text.
\<close>

definition LoadWorkspace_try :: "world \<Rightarrow> string \<Rightarrow> Error action" where
  "LoadWorkspace_try w name = (\<lambda>s.
     case (if opens_for_reading w (GetWorkspacePath name)
           then files s (GetWorkspacePath name) else None) of
       None \<Rightarrow> (Returns (Failure ''Workspace file not found''), s)
     | Some text \<Rightarrow> bind (lift (json_parse w text)) (DeserializeAndApplyState w) s)"

definition LoadWorkspace :: "world \<Rightarrow> string \<Rightarrow> Error action" where
  "LoadWorkspace w name =
     catch_std (LoadWorkspace_try w name)
       (\<lambda>what. returns (Failure (''Failed to load workspace: '' @ what)))"

text \<open>
  \<open>path::extension\<close> and \<open>path::stem\<close> of a file name: the extension starts at the
  last period, unless the name is \<open>.\<close> or \<open>..\<close> or that period is its first character.
\<close>

definition path_extension :: "string \<Rightarrow> string" where
  "path_extension fn =
     (if fn = ''.'' \<or> fn = ''..'' \<or> CHR ''.'' \<notin> set fn then []
      else
        let suffix = rev (takeWhile (\<lambda>c. c \<noteq> CHR ''.'') (rev fn));
            dot = length fn - length suffix - 1
        in if dot = 0 then [] else drop dot fn)"

definition path_stem :: "string \<Rightarrow> string" where
  "path_stem fn = take (length fn - length (path_extension fn)) fn"

text \<open>
  \<open>GetAvailableWorkspaces\<close> iterates over the directory with no handler around the
  loop: what the iteration throws leaves the function.
\<close>

definition GetAvailableWorkspaces :: "world \<Rightarrow> string list outcome" where
  "GetAvailableWorkspaces w =
     (case directory_entries w ''workspaces'' of
        Throws e \<Rightarrow> Throws e
      | Returns entries \<Rightarrow>
          Returns (map path_stem (filter (\<lambda>entry. path_extension entry = ''.json'') entries)))"

definition fs_exists :: "world \<Rightarrow> string \<Rightarrow> bool action" where
  "fs_exists w path = (\<lambda>s.
     case exists_fault w path of
       Some what \<Rightarrow> (Throws (StdException what), s)
     | None \<Rightarrow> (Returns (files s path \<noteq> None), s))"

definition fs_remove :: "world \<Rightarrow> string \<Rightarrow> unit action" where
  "fs_remove w path = (\<lambda>s.
     case remove_fault w path of
       Some what \<Rightarrow> (Throws (StdException what), s)
     | None \<Rightarrow> (Returns (), s\<lparr>files := (files s)(path := None)\<rparr>))"

definition DeleteWorkspace_try :: "world \<Rightarrow> string \<Rightarrow> Error action" where
  "DeleteWorkspace_try w name =
     bind (fs_exists w (GetWorkspacePath name)) (\<lambda>found.
       if \<not> found then returns (Failure ''Workspace does not exist'')
       else seq (fs_remove w (GetWorkspacePath name)) (returns Success))"

definition DeleteWorkspace :: "world \<Rightarrow> string \<Rightarrow> Error action" where
  "DeleteWorkspace w name =
     catch_std (DeleteWorkspace_try w name)
       (\<lambda>what. returns (Failure (''Failed to delete workspace: '' @ what)))"

section \<open>Sample surroundings\<close>

text \<open>
  A main window of 800 by 600, managers that accept everything except an unknown dock
  location, and a parser that knows three texts: an empty object, the document of the
  test \<open>LoadIncompatibleVersion\<close>, and a complete document of version 1.0 that also
  carries a \<open>drag_state\<close>. Memory and logging never fail, and the matcher returns on
  strings of fewer than 30000 characters.
\<close>

definition incompatible_text :: string where
  \<open>incompatible_text =
     ''{"version": "2.0", "timestamp": 123456789, "windows": {}, "docking": {}, "toolbars": {}}''\<close>

definition incompatible_fields :: "string \<Rightarrow> json option" where
  "incompatible_fields =
     Map.empty
       (''version'' \<mapsto> JString ''2.0'',
        ''timestamp'' \<mapsto> JInt 123456789,
        ''windows'' \<mapsto> JObject Map.empty,
        ''docking'' \<mapsto> JObject Map.empty,
        ''toolbars'' \<mapsto> JObject Map.empty)"

definition incompatible_document :: json where
  "incompatible_document = JObject incompatible_fields"

definition complete_text :: string where
  \<open>complete_text =
     ''{"docking": [2], "drag_state": {"element_id": 7}, "toolbars": [3], "version": "1.0", "windows": [1]}''\<close>

definition complete_fields :: "string \<Rightarrow> json option" where
  "complete_fields =
     Map.empty
       (''docking'' \<mapsto> JArray [JInt 2],
        ''drag_state'' \<mapsto> JObject (Map.empty(''element_id'' \<mapsto> JInt 7)),
        ''toolbars'' \<mapsto> JArray [JInt 3],
        ''version'' \<mapsto> JString ''1.0'',
        ''windows'' \<mapsto> JArray [JInt 1])"

definition complete_document :: json where
  "complete_document = JObject complete_fields"

definition sample_world :: world where
  "sample_world =
     \<lparr> wm_GetMainWindow = Returns (Some (Finite 800, Finite 600)),
       wm_UpdateWindowPosition = (\<lambda>_ _ _. Returns ()),
       wm_SerializeState = Returns (JArray [JInt 1]),
       wm_DeserializeState = (\<lambda>_. Returns Success),
       dm_DockElement = (\<lambda>_ location.
         if location = ''right'' then Returns Success
         else Returns (Failure ''Unknown dock location'')),
       dm_SerializeState = Returns (JArray [JInt 2]),
       dm_DeserializeState = (\<lambda>_. Returns Success),
       tm_UpdateToolbarPosition = (\<lambda>_ _ _. Returns ()),
       tm_SerializeState = Returns (JArray [JInt 3]),
       tm_DeserializeState = (\<lambda>_. Returns Success),
       json_parse = (\<lambda>text.
         if text = ''{}'' then Returns (JObject Map.empty)
         else if text = incompatible_text then Returns incompatible_document
         else if text = complete_text then Returns complete_document
         else Throws (StdException ''parse error'')),
       json_dump = (\<lambda>_. Returns ''<document>''),
       json_what = (\<lambda>fault.
         case fault of
           Key_Not_Found key \<Rightarrow> ''key not found: '' @ key
         | Not_An_Object \<Rightarrow> ''cannot use at() with this value''
         | Not_A_String \<Rightarrow> ''type must be string''),
       clock_now = 1700000000,
       opens_for_reading = (\<lambda>_. True),
       opens_for_writing = (\<lambda>_. True),
       exists_fault = (\<lambda>_. None),
       remove_fault = (\<lambda>_. None),
       directory_entries = (\<lambda>_. Returns [''workspace1.json'', ''notes.txt'']),
       allocation_fault = (\<lambda>_. None),
       log_info = (\<lambda>_ _. Returns ()),
       regex_match_returns = (\<lambda>str. length str < 30000) \<rparr>"

text \<open>The elements of the test \<open>DragDropBasicOperation\<close>.\<close>

definition window_1 :: DraggableElement where
  "window_1 =
     \<lparr> elem_id = 1, elem_type = ''window'', elem_x = Finite 100, elem_y = Finite 100,
       elem_width = Finite 200, elem_height = Finite 150, isDocked = False,
       dockLocation = [] \<rparr>"

definition target_2 :: DraggableElement where
  "target_2 =
     \<lparr> elem_id = 2, elem_type = ''window'', elem_x = Finite 200, elem_y = Finite 150,
       elem_width = Finite 200, elem_height = Finite 150, isDocked = False,
       dockLocation = [] \<rparr>"

definition idle :: wm_state where
  "idle = \<lparr> current_drag = None, drag_drop_callback = None, files = Map.empty, calls = [] \<rparr>"

definition dragging :: wm_state where
  "dragging = idle\<lparr>current_drag := Some window_1\<rparr>"

definition failing_observer :: "DraggableElement \<Rightarrow> DraggableElement \<Rightarrow> unit outcome" where
  "failing_observer dragged target = Throws (StdException ''observer failed'')"

definition observed_dragging :: wm_state where
  "observed_dragging = dragging\<lparr>drag_drop_callback := Some failing_observer\<rparr>"

text \<open>A target whose dock location the sample docking manager refuses.\<close>

definition refused_dock_target :: DraggableElement where
  "refused_dock_target = target_2\<lparr>isDocked := True, dockLocation := ''middle''\<rparr>"

text \<open>A workspace file \<open>empty.json\<close> that holds an object without any field.\<close>

definition empty_document_state :: wm_state where
  "empty_document_state = idle\<lparr>files := [''workspaces/empty.json'' \<mapsto> ''{}'']\<rparr>"

text \<open>The sample world after the \<open>workspaces\<close> directory has been removed.\<close>

definition world_without_directory :: world where
  "world_without_directory =
     sample_world\<lparr>directory_entries :=
       (\<lambda>_. Throws (StdException ''directory iterator cannot open directory''))\<rparr>"

text \<open>The file of the test \<open>LoadIncompatibleVersion\<close>, present and readable.\<close>

definition incompatible_file_state :: wm_state where
  "incompatible_file_state =
     idle\<lparr>files := [''workspaces/incompatible.json'' \<mapsto> incompatible_text]\<rparr>"

text \<open>The file of the test \<open>LoadCorruptedWorkspace\<close>.\<close>

definition corrupted_file_state :: wm_state where
  "corrupted_file_state =
     idle\<lparr>files := [''workspaces/corrupted.json'' \<mapsto> ''{ invalid json content'']\<rparr>"

text \<open>A complete document under a name that \<open>SaveWorkspace\<close> would refuse.\<close>

definition spaced_name_state :: wm_state where
  "spaced_name_state = idle\<lparr>files := [''workspaces/a b.json'' \<mapsto> complete_text]\<rparr>"

text \<open>Sample worlds in which one call throws a \<open>std::exception\<close>.\<close>

definition world_failing_window_restore :: world where
  "world_failing_window_restore =
     sample_world\<lparr>wm_DeserializeState :=
       (\<lambda>_. Throws (StdException ''window layout rejected''))\<rparr>"

definition world_failing_window_move :: world where
  "world_failing_window_move =
     sample_world\<lparr>wm_UpdateWindowPosition :=
       (\<lambda>_ _ _. Throws (StdException ''window is gone''))\<rparr>"

definition world_failing_dump :: world where
  "world_failing_dump =
     sample_world\<lparr>json_dump := (\<lambda>_. Throws (StdException ''invalid UTF-8 byte''))\<rparr>"

definition world_failing_remove :: world where
  "world_failing_remove =
     sample_world\<lparr>remove_fault := (\<lambda>_. Some ''Permission denied'')\<rparr>"

text \<open>The directory of the test \<open>GetAvailableWorkspaces\<close>.\<close>

definition world_three_workspaces :: world where
  "world_three_workspaces =
     sample_world\<lparr>directory_entries :=
       (\<lambda>_. Returns [''workspace1.json'', ''workspace2.json'', ''workspace3.json''])\<rparr>"

text \<open>The characters of \<open>[a-zA-Z0-9_-]\<close>, written out one by one.\<close>

definition allowed_name_chars :: string where
  "allowed_name_chars =
     ''abcdefghijklmnopqrstuvwxyzABCDEFGHIJKLMNOPQRSTUVWXYZ0123456789_-''"

section \<open>Proof tools\<close>

lemmas action_defs =
  returns_def lift_def bind_def seq_def catch_std_def external_def clear_drag_def

lemmas sample_defs =
  sample_world_def window_1_def target_2_def idle_def dragging_def failing_observer_def
  incompatible_text_def incompatible_fields_def incompatible_document_def
  complete_text_def complete_fields_def complete_document_def

lemmas drag_defs =
  EndDrag_def EndDrag_try_def EndDrag_place_def IsValidDropTarget_def
  notify_observer_def update_position_def

lemmas load_defs =
  LoadWorkspace_def LoadWorkspace_try_def DeserializeAndApplyState_def
  DeserializeAndApplyState_try_def json_at_def json_get_string_def

lemmas save_defs =
  SaveWorkspace_def SaveWorkspace_try_def SerializeCurrentState_def write_document_def

lemmas delete_defs = DeleteWorkspace_def DeleteWorkspace_try_def fs_exists_def fs_remove_def

lemma fl_less_not_le: "fl_less a b \<Longrightarrow> \<not> fl_le b a"
  by (cases a; cases b) auto

section \<open>The drag state machine\<close>

text \<open>
  C6: \<open>BeginDrag\<close> during a drag fails with "A drag operation is already in progress"
  and changes nothing, so the first drag stays active; \<open>UpdateDragPosition\<close> and
  \<open>EndDrag\<close> without a drag fail with "No drag operation in progress" and change
  nothing, so the coordinator stays idle.
\<close>

theorem drag_guards:
  "(current_drag s = Some d \<longrightarrow>
      BeginDrag w element s =
        (Returns (Failure ''A drag operation is already in progress''), s)
      \<and> GetDraggedElement (snd (BeginDrag w element s)) = Some d)
   \<and> (current_drag s = None \<longrightarrow>
      UpdateDragPosition x y s = (Returns (Failure ''No drag operation in progress''), s)
      \<and> EndDrag w target s = (Returns (Failure ''No drag operation in progress''), s))"
  by (simp add: BeginDrag_def UpdateDragPosition_def EndDrag_def GetDraggedElement_def)

theorem drag_guards_witness:
  "current_drag dragging = Some window_1
   \<and> BeginDrag sample_world target_2 dragging =
       (Returns (Failure ''A drag operation is already in progress''), dragging)
   \<and> GetDraggedElement (snd (BeginDrag sample_world target_2 dragging)) = Some window_1
   \<and> current_drag idle = None
   \<and> UpdateDragPosition (Finite 200) (Finite 150) idle =
       (Returns (Failure ''No drag operation in progress''), idle)
   \<and> EndDrag sample_world target_2 idle =
       (Returns (Failure ''No drag operation in progress''), idle)"
  using drag_guards [of dragging window_1 sample_world target_2]
    drag_guards [of idle window_1 sample_world target_2 "Finite 200" "Finite 150" target_2]
  by (simp add: dragging_def idle_def GetDraggedElement_def)

lemma EndDrag_place_returns:
  "EndDrag_place w d target s = (Returns r, s') \<Longrightarrow> current_drag s' = None"
  by (auto simp: EndDrag_place_def notify_observer_def update_position_def action_defs
      split: if_splits outcome.splits option.splits prod.splits)

lemma EndDrag_try_returns:
  "EndDrag_try w d target s = (Returns r, s') \<Longrightarrow> current_drag s' = None"
  by (auto simp: EndDrag_try_def IsValidDropTarget_def action_defs
      split: if_splits outcome.splits option.splits prod.splits dest: EndDrag_place_returns)

lemma EndDrag_refused_dock:
  "EndDrag sample_world refused_dock_target dragging =
     (Returns (Failure ''Unknown dock location''),
      idle\<lparr>calls := [Call_GetMainWindow, Call_DockElement 1 ''middle'']\<rparr>)"
  by (simp add: EndDrag_def EndDrag_try_def EndDrag_place_def IsValidDropTarget_def
      notify_observer_def update_position_def action_defs sample_defs
      refused_dock_target_def)

lemma EndDrag_sample:
  "EndDrag sample_world target_2 dragging =
     (Returns Success,
      idle\<lparr>calls := [Call_GetMainWindow, Call_UpdateWindowPosition 1 (Finite 200) (Finite 150)]\<rparr>)"
  by (simp add: EndDrag_def EndDrag_try_def EndDrag_place_def IsValidDropTarget_def
      notify_observer_def update_position_def action_defs sample_defs)

text \<open>
  C4: when a drag is active and \<open>EndDrag\<close> returns, whatever it returns (success, an
  invalid drop target, a docking failure, or the error made from a caught exception),
  no drag is active afterwards: \<open>GetDraggedElement\<close> gives nothing.
\<close>

theorem EndDrag_clears_drag:
  assumes "current_drag s = Some d" and "EndDrag w target s = (Returns r, s')"
  shows "GetDraggedElement s' = None"
  using assms
  by (auto simp: EndDrag_def GetDraggedElement_def catch_std_def seq_def bind_def
        clear_drag_def returns_def
      split: prod.splits outcome.splits exn.splits dest: EndDrag_try_returns)

theorem EndDrag_clears_drag_witness:
  "current_drag dragging = Some window_1
   \<and> EndDrag sample_world target_2 dragging =
       (Returns Success,
        idle\<lparr>calls := [Call_GetMainWindow,
                         Call_UpdateWindowPosition 1 (Finite 200) (Finite 150)]\<rparr>)
   \<and> GetDraggedElement
        (idle\<lparr>calls := [Call_GetMainWindow,
                         Call_UpdateWindowPosition 1 (Finite 200) (Finite 150)]\<rparr>) = None
   \<and> EndDrag sample_world refused_dock_target dragging =
       (Returns (Failure ''Unknown dock location''),
        idle\<lparr>calls := [Call_GetMainWindow, Call_DockElement 1 ''middle'']\<rparr>)
   \<and> GetDraggedElement
        (idle\<lparr>calls := [Call_GetMainWindow, Call_DockElement 1 ''middle'']\<rparr>) = None"
proof -
  have a: "current_drag dragging = Some window_1" by (simp add: dragging_def)
  from EndDrag_clears_drag [OF a EndDrag_sample]
    EndDrag_clears_drag [OF a EndDrag_refused_dock] a EndDrag_sample EndDrag_refused_dock
  show ?thesis by simp
qed

text \<open>
  C5: with a drag active, a target with a negative coordinate, or with a coordinate
  greater than the main window's width or height, makes \<open>EndDrag\<close> fail with
  "Invalid drop target location". The drag is cleared and the only call made is the
  query for the main window (none at all for a negative coordinate): no docking, no
  position update, no observer.
\<close>

theorem invalid_drop_target_has_no_effect:
  assumes "current_drag s = Some d"
    and "fl_less (elem_x target) (Finite 0) \<or> fl_less (elem_y target) (Finite 0)
         \<or> (wm_GetMainWindow w = Returns (Some (width, height))
             \<and> (fl_less width (elem_x target) \<or> fl_less height (elem_y target)))"
  shows "EndDrag w target s =
           (Returns (Failure ''Invalid drop target location''),
            s\<lparr>current_drag := None,
              calls := calls s @
                (if fl_less (elem_x target) (Finite 0) \<or> fl_less (elem_y target) (Finite 0)
                 then [] else [Call_GetMainWindow])\<rparr>)"
  using assms
  by (auto simp: drag_defs action_defs dest: fl_less_not_le)

theorem invalid_drop_target_has_no_effect_witness:
  "current_drag (dragging\<lparr>drag_drop_callback := Some failing_observer\<rparr>) = Some window_1
   \<and> wm_GetMainWindow sample_world = Returns (Some (Finite 800, Finite 600))
   \<and> fl_less (Finite 800) (elem_x (target_2\<lparr>elem_x := Finite 801, isDocked := True\<rparr>))
   \<and> EndDrag sample_world (target_2\<lparr>elem_x := Finite 801, isDocked := True\<rparr>)
        (dragging\<lparr>drag_drop_callback := Some failing_observer\<rparr>) =
       (Returns (Failure ''Invalid drop target location''),
        idle\<lparr>drag_drop_callback := Some failing_observer, calls := [Call_GetMainWindow]\<rparr>)"
  using invalid_drop_target_has_no_effect
    [of "dragging\<lparr>drag_drop_callback := Some failing_observer\<rparr>" window_1
        "target_2\<lparr>elem_x := Finite 801, isDocked := True\<rparr>" sample_world
        "Finite 800" "Finite 600"]
  by (simp add: sample_defs)

text \<open>
  C10: when the window manager has no main window, \<open>IsValidDropTarget\<close> is false for
  every pair of coordinates, and \<open>EndDrag\<close> during a drag fails with
  "Invalid drop target location" whatever the target, also for non-negative coordinates.
\<close>

theorem no_main_window_rejects_every_target:
  assumes "wm_GetMainWindow w = Returns None"
  shows "fst (IsValidDropTarget w x y s) = Returns False
         \<and> (current_drag s = Some d \<longrightarrow>
              fst (EndDrag w target s) = Returns (Failure ''Invalid drop target location''))"
  using assms by (auto simp: drag_defs action_defs)

theorem no_main_window_rejects_every_target_witness:
  "wm_GetMainWindow (sample_world\<lparr>wm_GetMainWindow := Returns None\<rparr>) = Returns None
   \<and> fst (IsValidDropTarget (sample_world\<lparr>wm_GetMainWindow := Returns None\<rparr>)
           (Finite 200) (Finite 150) dragging) = Returns False
   \<and> current_drag dragging = Some window_1
   \<and> \<not> fl_less (elem_x target_2) (Finite 0) \<and> \<not> fl_less (elem_y target_2) (Finite 0)
   \<and> fst (EndDrag (sample_world\<lparr>wm_GetMainWindow := Returns None\<rparr>) target_2 dragging) =
       Returns (Failure ''Invalid drop target location'')"
  using no_main_window_rejects_every_target
    [of "sample_world\<lparr>wm_GetMainWindow := Returns None\<rparr>" "Finite 200" "Finite 150"
        dragging window_1 target_2]
  by (simp add: sample_defs)

section \<open>The observer\<close>

text \<open>
  C3, as stated, fails: the observer is called inside the \<open>try\<close> block of \<open>EndDrag\<close>,
  so an observer that throws a \<open>std::exception\<close> makes \<open>EndDrag\<close> return the error
  "Failed to complete drag operation: ..." instead of passing the exception on.
\<close>

theorem observer_exception_counterexample:
  "current_drag observed_dragging = Some window_1
   \<and> drag_drop_callback observed_dragging = Some failing_observer
   \<and> failing_observer window_1 target_2 = Throws (StdException ''observer failed'')
   \<and> fst (EndDrag sample_world target_2 observed_dragging) \<noteq>
       Throws (StdException ''observer failed'')
   \<and> EndDrag sample_world target_2 observed_dragging =
       (Returns (Failure ''Failed to complete drag operation: observer failed''),
        idle\<lparr>drag_drop_callback := Some failing_observer,
             calls := [Call_GetMainWindow, Call_Observer window_1 target_2]\<rparr>)"
  by (simp add: drag_defs action_defs sample_defs observed_dragging_def)

text \<open>
  C3, amended: when the target is valid and docking, if asked for, succeeds, a registered
  observer is called with the dragged element and the target. A \<open>std::exception\<close>
  it throws is caught: \<open>EndDrag\<close> returns "Failed to complete drag operation: " followed
  by the exception's text, the drag is cleared and no position is updated. Only an
  exception that is not a \<open>std::exception\<close> leaves \<open>EndDrag\<close>.
\<close>

theorem observer_called_and_std_exception_caught:
  assumes "current_drag s = Some d" and "drag_drop_callback s = Some observer"
    and "\<not> fl_less (elem_x target) (Finite 0)" and "\<not> fl_less (elem_y target) (Finite 0)"
    and "wm_GetMainWindow w = Returns (Some (width, height))"
    and "fl_le (elem_x target) width" and "fl_le (elem_y target) height"
    and "isDocked target \<longrightarrow> dm_DockElement w (elem_id d) (dockLocation target) = Returns Success"
  shows "Call_Observer d target \<in>
           set (drop (length (calls s)) (calls (snd (EndDrag w target s))))
       \<and> (\<forall>what. observer d target = Throws (StdException what) \<longrightarrow>
            EndDrag w target s =
              (Returns (Failure (''Failed to complete drag operation: '' @ what)),
               s\<lparr>current_drag := None,
                 calls := calls s @ Call_GetMainWindow #
                   (if isDocked target
                    then [Call_DockElement (elem_id d) (dockLocation target)] else []) @
                   [Call_Observer d target]\<rparr>))
       \<and> (observer d target = Throws OtherException \<longrightarrow>
            fst (EndDrag w target s) = Throws OtherException)"
proof (intro conjI allI impI)
  show "Call_Observer d target \<in>
           set (drop (length (calls s)) (calls (snd (EndDrag w target s))))"
    using assms
    by (cases "observer d target"; cases "isDocked target")
       (auto simp: drag_defs action_defs split: exn.splits outcome.splits prod.splits)
next
  fix what assume "observer d target = Throws (StdException what)"
  with assms show "EndDrag w target s =
              (Returns (Failure (''Failed to complete drag operation: '' @ what)),
               s\<lparr>current_drag := None,
                 calls := calls s @ Call_GetMainWindow #
                   (if isDocked target
                    then [Call_DockElement (elem_id d) (dockLocation target)] else []) @
                   [Call_Observer d target]\<rparr>)"
    by (auto simp: drag_defs action_defs)
next
  assume "observer d target = Throws OtherException"
  with assms show "fst (EndDrag w target s) = Throws OtherException"
    by (auto simp: drag_defs action_defs)
qed

theorem observer_called_and_std_exception_caught_witness:
  "current_drag (dragging\<lparr>drag_drop_callback := Some failing_observer\<rparr>) = Some window_1
   \<and> failing_observer window_1 target_2 = Throws (StdException ''observer failed'')
   \<and> Call_Observer window_1 target_2 \<in>
       set (drop (length (calls (dragging\<lparr>drag_drop_callback := Some failing_observer\<rparr>)))
         (calls (snd (EndDrag sample_world target_2
                  (dragging\<lparr>drag_drop_callback := Some failing_observer\<rparr>)))))
   \<and> fst (EndDrag sample_world target_2
            (dragging\<lparr>drag_drop_callback := Some failing_observer\<rparr>)) =
       Returns (Failure ''Failed to complete drag operation: observer failed'')"
  using observer_called_and_std_exception_caught
    [of "dragging\<lparr>drag_drop_callback := Some failing_observer\<rparr>" window_1 failing_observer
        target_2 sample_world "Finite 800" "Finite 600"]
  by (simp add: sample_defs)

section \<open>Loading a workspace\<close>

text \<open>
  C1, as stated, fails for a document without a \<open>version\<close> field: \<open>at("version")\<close>
  throws, the handler of \<open>DeserializeAndApplyState\<close> catches it, and the message is
  "Failed to apply workspace state: ..." and not the version message.
\<close>

theorem missing_version_counterexample:
  "files empty_document_state (GetWorkspacePath ''empty'') = Some ''{}''
   \<and> json_parse sample_world ''{}'' = Returns (JObject Map.empty)
   \<and> fst (LoadWorkspace sample_world ''empty'' empty_document_state) \<noteq>
       Returns (Failure ''Unsupported workspace format version'')
   \<and> LoadWorkspace sample_world ''empty'' empty_document_state =
       (Returns (Failure ''Failed to apply workspace state: key not found: version''),
        empty_document_state)"
  by (simp add: load_defs GetWorkspacePath_def action_defs sample_defs
      empty_document_state_def)

text \<open>
  C1, amended: a loaded document whose \<open>version\<close> field is a string other than "1.0"
  makes \<open>LoadWorkspace\<close> fail with "Unsupported workspace format version", whatever
  its other fields are. A loaded document that is no object, has no \<open>version\<close> field or
  has one that is no string makes it fail with a message that starts with
  "Failed to apply workspace state: ". In both cases no manager is called.
\<close>

theorem unsupported_version_rejected:
  assumes "opens_for_reading w (GetWorkspacePath name)"
    and "files s (GetWorkspacePath name) = Some text"
    and "json_parse w text = Returns doc"
  shows "(\<forall>m v. doc = JObject m \<and> m ''version'' = Some (JString v) \<and> v \<noteq> ''1.0'' \<longrightarrow>
            LoadWorkspace w name s =
              (Returns (Failure ''Unsupported workspace format version''), s))
       \<and> ((\<forall>m v. doc = JObject m \<longrightarrow> m ''version'' \<noteq> Some (JString v)) \<longrightarrow>
            (\<exists>what. LoadWorkspace w name s =
              (Returns (Failure (''Failed to apply workspace state: '' @ what)), s)))"
proof (intro conjI allI impI)
  fix m v
  assume "doc = JObject m \<and> m ''version'' = Some (JString v) \<and> v \<noteq> ''1.0''"
  with assms show "LoadWorkspace w name s =
              (Returns (Failure ''Unsupported workspace format version''), s)"
    by (simp add: load_defs action_defs)
next
  assume none: "\<forall>m v. doc = JObject m \<longrightarrow> m ''version'' \<noteq> Some (JString v)"
  show "\<exists>what. LoadWorkspace w name s =
              (Returns (Failure (''Failed to apply workspace state: '' @ what)), s)"
  proof (cases doc)
    case (JObject m)
    show ?thesis
    proof (cases "m ''version''")
      case None
      with JObject assms show ?thesis by (simp add: load_defs action_defs)
    next
      case (Some j)
      with JObject none have "\<And>v. j \<noteq> JString v" by auto
      with Some JObject assms show ?thesis
        by (cases j) (auto simp: load_defs action_defs)
    qed
  qed (use assms in \<open>simp_all add: load_defs action_defs\<close>)
qed

theorem unsupported_version_rejected_witness:
  "opens_for_reading sample_world (GetWorkspacePath ''incompatible'')
   \<and> files (idle\<lparr>files := [''workspaces/incompatible.json'' \<mapsto> incompatible_text]\<rparr>)
        (GetWorkspacePath ''incompatible'') = Some incompatible_text
   \<and> json_parse sample_world incompatible_text = Returns incompatible_document
   \<and> LoadWorkspace sample_world ''incompatible''
        (idle\<lparr>files := [''workspaces/incompatible.json'' \<mapsto> incompatible_text]\<rparr>) =
       (Returns (Failure ''Unsupported workspace format version''),
        idle\<lparr>files := [''workspaces/incompatible.json'' \<mapsto> incompatible_text]\<rparr>)"
  using unsupported_version_rejected
    [of sample_world "''incompatible''"
        "idle\<lparr>files := [''workspaces/incompatible.json'' \<mapsto> incompatible_text]\<rparr>"
        incompatible_text incompatible_document]
  by (simp add: sample_defs GetWorkspacePath_def)

text \<open>Loading never touches the drag state.\<close>

lemma keeps_bind:
  assumes "\<And>s. current_drag (snd (m s)) = current_drag s"
    and "\<And>a s. current_drag (snd (f a s)) = current_drag s"
  shows "current_drag (snd (bind m f s)) = current_drag s"
proof (cases "m s")
  case (Pair r s')
  with assms(1) [of s] have "current_drag s' = current_drag s" by simp
  with Pair assms(2) show ?thesis by (cases r) (simp_all add: bind_def)
qed

lemma keeps_catch_std:
  assumes "\<And>s. current_drag (snd (m s)) = current_drag s"
    and "\<And>what s. current_drag (snd (h what s)) = current_drag s"
  shows "current_drag (snd (catch_std m h s)) = current_drag s"
proof (cases "m s")
  case (Pair r s')
  with assms(1) [of s] have "current_drag s' = current_drag s" by simp
  with Pair assms(2) show ?thesis
    by (cases r) (simp_all add: catch_std_def split: exn.splits)
qed

lemma keeps_simple:
  "current_drag (snd (returns a s)) = current_drag s"
  "current_drag (snd (lift r s)) = current_drag s"
  "current_drag (snd (external c r s)) = current_drag s"
  by (simp_all add: returns_def lift_def external_def)

lemma keeps_if:
  assumes "current_drag (snd (m s)) = current_drag s"
    and "current_drag (snd (n s)) = current_drag s"
  shows "current_drag (snd ((if b then m else n) s)) = current_drag s"
  using assms by simp

lemma DeserializeAndApplyState_keeps_drag:
  "current_drag (snd (DeserializeAndApplyState w doc s)) = current_drag s"
  unfolding DeserializeAndApplyState_def DeserializeAndApplyState_try_def
  by (intro keeps_catch_std keeps_bind keeps_if keeps_simple)

lemma LoadWorkspace_keeps_drag:
  "current_drag (snd (LoadWorkspace w name s)) = current_drag s"
  unfolding LoadWorkspace_def
proof (rule keeps_catch_std)
  fix s
  show "current_drag (snd (LoadWorkspace_try w name s)) = current_drag s"
    unfolding LoadWorkspace_try_def
    by (auto split: option.splits
        intro!: keeps_bind keeps_simple DeserializeAndApplyState_keeps_drag)
qed (rule keeps_simple)

text \<open>
  C8: after the version check the \<open>windows\<close>, \<open>docking\<close> and \<open>toolbars\<close> parts go to
  the window, docking and toolbar managers in this order. The first manager that
  reports a failure ends the load: the later managers are not called and the failure is
  returned as it is. The drag state after the load is the one before it, whether or not
  the document has a \<open>drag_state\<close>.
\<close>

theorem load_dispatch_order:
  assumes "opens_for_reading w (GetWorkspacePath name)"
    and "files s (GetWorkspacePath name) = Some text"
    and "json_parse w text = Returns (JObject m)"
    and "m ''version'' = Some (JString ''1.0'')"
    and "m ''windows'' = Some windows"
    and "wm_DeserializeState w windows = Returns rw"
  shows "(rw \<noteq> Success \<longrightarrow>
            LoadWorkspace w name s =
              (Returns rw, s\<lparr>calls := calls s @ [Call_Window_DeserializeState windows]\<rparr>))
       \<and> (\<forall>docking rd.
            rw = Success \<and> m ''docking'' = Some docking
            \<and> dm_DeserializeState w docking = Returns rd \<longrightarrow>
              (rd \<noteq> Success \<longrightarrow>
                 LoadWorkspace w name s =
                   (Returns rd,
                    s\<lparr>calls := calls s @ [Call_Window_DeserializeState windows,
                        Call_Docking_DeserializeState docking]\<rparr>))
              \<and> (\<forall>toolbars rt.
                   rd = Success \<and> m ''toolbars'' = Some toolbars
                   \<and> tm_DeserializeState w toolbars = Returns rt \<longrightarrow>
                     LoadWorkspace w name s =
                       (Returns rt,
                        s\<lparr>calls := calls s @ [Call_Window_DeserializeState windows,
                            Call_Docking_DeserializeState docking,
                            Call_Toolbar_DeserializeState toolbars]\<rparr>)))
       \<and> current_drag (snd (LoadWorkspace w name s)) = current_drag s"
proof (intro conjI allI impI)
  assume "rw \<noteq> Success"
  then have "\<not> IsSuccess rw" by (cases rw) simp_all
  with assms show "LoadWorkspace w name s =
              (Returns rw, s\<lparr>calls := calls s @ [Call_Window_DeserializeState windows]\<rparr>)"
    by (simp add: load_defs action_defs)
next
  fix docking rd
  assume a: "rw = Success \<and> m ''docking'' = Some docking
            \<and> dm_DeserializeState w docking = Returns rd" and "rd \<noteq> Success"
  then have "\<not> IsSuccess rd" by (cases rd) simp_all
  with a assms show "LoadWorkspace w name s =
                   (Returns rd,
                    s\<lparr>calls := calls s @ [Call_Window_DeserializeState windows,
                        Call_Docking_DeserializeState docking]\<rparr>)"
    by (simp add: load_defs action_defs)
next
  fix docking rd toolbars rt
  assume a: "rw = Success \<and> m ''docking'' = Some docking
            \<and> dm_DeserializeState w docking = Returns rd"
    and b: "rd = Success \<and> m ''toolbars'' = Some toolbars
                   \<and> tm_DeserializeState w toolbars = Returns rt"
  with assms show "LoadWorkspace w name s =
                       (Returns rt,
                        s\<lparr>calls := calls s @ [Call_Window_DeserializeState windows,
                            Call_Docking_DeserializeState docking,
                            Call_Toolbar_DeserializeState toolbars]\<rparr>)"
    by (cases rt) (simp_all add: load_defs action_defs)
next
  show "current_drag (snd (LoadWorkspace w name s)) = current_drag s"
    by (rule LoadWorkspace_keeps_drag)
qed

theorem load_dispatch_order_witness:
  "opens_for_reading sample_world (GetWorkspacePath ''layout'')
   \<and> json_parse sample_world complete_text = Returns complete_document
   \<and> complete_fields ''drag_state'' \<noteq> None
   \<and> LoadWorkspace sample_world ''layout''
        (dragging\<lparr>files := [''workspaces/layout.json'' \<mapsto> complete_text]\<rparr>) =
       (Returns Success,
        dragging\<lparr>files := [''workspaces/layout.json'' \<mapsto> complete_text],
          calls := [Call_Window_DeserializeState (JArray [JInt 1]),
                    Call_Docking_DeserializeState (JArray [JInt 2]),
                    Call_Toolbar_DeserializeState (JArray [JInt 3])]\<rparr>)
   \<and> LoadWorkspace
        (sample_world\<lparr>dm_DeserializeState := (\<lambda>_. Returns (Failure ''bad docking layout''))\<rparr>)
        ''layout'' (dragging\<lparr>files := [''workspaces/layout.json'' \<mapsto> complete_text]\<rparr>) =
       (Returns (Failure ''bad docking layout''),
        dragging\<lparr>files := [''workspaces/layout.json'' \<mapsto> complete_text],
          calls := [Call_Window_DeserializeState (JArray [JInt 1]),
                    Call_Docking_DeserializeState (JArray [JInt 2])]\<rparr>)"
  using load_dispatch_order
    [of sample_world "''layout''"
        "dragging\<lparr>files := [''workspaces/layout.json'' \<mapsto> complete_text]\<rparr>"
        complete_text complete_fields "JArray [JInt 1]" Success]
    load_dispatch_order
    [of "sample_world\<lparr>dm_DeserializeState := (\<lambda>_. Returns (Failure ''bad docking layout''))\<rparr>"
        "''layout''"
        "dragging\<lparr>files := [''workspaces/layout.json'' \<mapsto> complete_text]\<rparr>"
        complete_text complete_fields "JArray [JInt 1]" Success]
  by (simp add: sample_defs GetWorkspacePath_def)

section \<open>Workspace names\<close>

text \<open>The bracket expression of the pattern accepts the 64 listed characters and no other.\<close>

lemma allowed_in_class:
  "c \<in> set allowed_name_chars \<Longrightarrow> in_class valid_name_class c"
  unfolding allowed_name_chars_def in_class_def valid_name_class_def
  by (simp, elim disjE) simp_all

lemma in_class_allowed:
  assumes "in_class valid_name_class c"
  shows "c \<in> set allowed_name_chars"
proof -
  have code: "\<And>d. (c = d) = (of_char c = (of_char d :: nat))" by simp
  from assms consider
      "(of_char c :: nat) \<in> {97..<123}"
    | "(of_char c :: nat) \<in> {65..<91}"
    | "(of_char c :: nat) \<in> {48..<58}"
    | "c = CHR ''_''" | "c = CHR ''-''"
    by (auto simp: in_class_def valid_name_class_def)
  then show ?thesis
  proof cases
    case 1
    then have "(of_char c :: nat) \<in> set [97..<123]" by (simp only: set_upt)
    then show ?thesis unfolding allowed_name_chars_def
      by (simp add: code upt_rec) blast
  next
    case 2
    then have "(of_char c :: nat) \<in> set [65..<91]" by (simp only: set_upt)
    then show ?thesis unfolding allowed_name_chars_def
      by (simp add: code upt_rec) blast
  next
    case 3
    then have "(of_char c :: nat) \<in> set [48..<58]" by (simp only: set_upt)
    then show ?thesis unfolding allowed_name_chars_def
      by (simp add: code upt_rec) blast
  qed (simp_all add: allowed_name_chars_def)
qed

lemma regex_match_plus_valid:
  "regex_match_plus valid_name_class name \<longleftrightarrow>
     name \<noteq> [] \<and> set name \<subseteq> set allowed_name_chars"
  using allowed_in_class in_class_allowed
  by (auto simp: regex_match_plus_def list_all_iff)

lemma valid_name_passes:
  assumes "name \<noteq> []" and "regex_match_returns w name"
    and "set name \<subseteq> set allowed_name_chars"
  shows "ValidateWorkspaceName w name = Some Success"
  using assms by (simp add: ValidateWorkspaceName_def regex_match_plus_valid)

lemma save_starts_serializing:
  assumes "ValidateWorkspaceName w name = Some Success"
  shows "map_option (\<lambda>r. take (Suc (length (calls s))) (calls (snd r)))
           (SaveWorkspace w name s) = Some (calls s @ [Call_Window_SerializeState])"
  using assms
  by (auto simp: save_defs action_defs Let_def
      split: outcome.splits exn.splits prod.splits option.splits)

text \<open>
  In the sample world a name of 30000 letters is one on which the matcher does not
  return: \<open>SaveWorkspace\<close> has no result there.
\<close>

lemma long_name_save_does_not_return:
  "SaveWorkspace sample_world (replicate 30000 (CHR ''a'')) idle = None"
  by (simp add: SaveWorkspace_def ValidateWorkspaceName_def sample_world_def)

lemma load_of_found_file:
  assumes "opens_for_reading w (GetWorkspacePath name)"
    and "files s (GetWorkspacePath name) = Some content"
  shows "LoadWorkspace w name s =
           (case json_parse w content of
              Returns doc \<Rightarrow> DeserializeAndApplyState w doc s
            | Throws (StdException what) \<Rightarrow>
                (Returns (Failure (''Failed to load workspace: '' @ what)), s)
            | Throws OtherException \<Rightarrow> (Throws OtherException, s))"
proof (cases "json_parse w content")
  case (Returns doc)
  have "fst (DeserializeAndApplyState w doc s) \<noteq> Throws (StdException x)" for x
    unfolding DeserializeAndApplyState_def
    by (cases "DeserializeAndApplyState_try w doc s")
       (auto simp: catch_std_def returns_def split: outcome.splits exn.splits)
  moreover from Returns assms
  have "LoadWorkspace_try w name s = DeserializeAndApplyState w doc s"
    by (simp add: LoadWorkspace_try_def bind_def lift_def)
  ultimately have "LoadWorkspace w name s = DeserializeAndApplyState w doc s"
    by (cases "DeserializeAndApplyState w doc s")
       (auto simp: LoadWorkspace_def catch_std_def split: outcome.splits exn.splits)
  with Returns show ?thesis by simp
next
  case (Throws e)
  with assms show ?thesis
    by (cases e)
       (simp_all add: LoadWorkspace_def LoadWorkspace_try_def bind_def lift_def
          catch_std_def returns_def)
qed

text \<open>
  C7, as stated, fails in its last part: \<open>LoadWorkspace\<close> does not fail only when no
  matching file exists. The file of the test \<open>LoadIncompatibleVersion\<close> is found and
  read, and the load fails all the same.
\<close>

theorem found_file_load_failure_counterexample:
  "opens_for_reading sample_world (GetWorkspacePath ''incompatible'')
   \<and> files incompatible_file_state (GetWorkspacePath ''incompatible'') =
       Some incompatible_text
   \<and> LoadWorkspace sample_world ''incompatible'' incompatible_file_state =
       (Returns (Failure ''Unsupported workspace format version''), incompatible_file_state)"
  by (simp add: load_defs GetWorkspacePath_def action_defs sample_defs
      incompatible_file_state_def)

text \<open>
  C7, amended: only \<open>SaveWorkspace\<close> validates the name. It fails with a validation
  message, and does nothing else, for the empty name and, when the match returns, for a
  name with a character outside \<open>[a-zA-Z0-9_-]\<close>; for a non-empty name of such
  characters on which the match returns, the validation succeeds and the save goes on
  to ask the window manager for its state. \<open>LoadWorkspace\<close> and \<open>DeleteWorkspace\<close>
  take any name. Without a matching file they fail with "Workspace file not found" and
  "Workspace does not exist". With one, the name plays no further part: the result of a
  load is decided by the content of the file and by the managers, so that a well-formed
  document loads and any other fails for its own reason, and the file is deleted.
\<close>

theorem name_validation_gates_save_only:
  "(name = [] \<longrightarrow>
      SaveWorkspace w name s =
        Some (Returns (Failure ''Workspace name cannot be empty''), s))
   \<and> (name \<noteq> [] \<and> regex_match_returns w name
       \<and> \<not> set name \<subseteq> set allowed_name_chars \<longrightarrow>
      SaveWorkspace w name s =
        Some (Returns (Failure
           ''Workspace name can only contain letters, numbers, underscores, and hyphens''), s))
   \<and> (name \<noteq> [] \<and> regex_match_returns w name
       \<and> set name \<subseteq> set allowed_name_chars \<longrightarrow>
      ValidateWorkspaceName w name = Some Success
      \<and> map_option (\<lambda>r. take (Suc (length (calls s))) (calls (snd r)))
          (SaveWorkspace w name s) = Some (calls s @ [Call_Window_SerializeState]))
   \<and> (\<not> opens_for_reading w (GetWorkspacePath name) \<or> files s (GetWorkspacePath name) = None \<longrightarrow>
      LoadWorkspace w name s = (Returns (Failure ''Workspace file not found''), s))
   \<and> (\<forall>content.
        opens_for_reading w (GetWorkspacePath name)
        \<and> files s (GetWorkspacePath name) = Some content \<longrightarrow>
        LoadWorkspace w name s =
          (case json_parse w content of
             Returns doc \<Rightarrow> DeserializeAndApplyState w doc s
           | Throws (StdException what) \<Rightarrow>
               (Returns (Failure (''Failed to load workspace: '' @ what)), s)
           | Throws OtherException \<Rightarrow> (Throws OtherException, s)))
   \<and> (\<forall>content m windows docking toolbars.
        opens_for_reading w (GetWorkspacePath name)
        \<and> files s (GetWorkspacePath name) = Some content
        \<and> json_parse w content = Returns (JObject m)
        \<and> m ''version'' = Some (JString ''1.0'')
        \<and> m ''windows'' = Some windows \<and> wm_DeserializeState w windows = Returns Success
        \<and> m ''docking'' = Some docking \<and> dm_DeserializeState w docking = Returns Success
        \<and> m ''toolbars'' = Some toolbars \<and> tm_DeserializeState w toolbars = Returns Success \<longrightarrow>
        fst (LoadWorkspace w name s) = Returns Success)
   \<and> (exists_fault w (GetWorkspacePath name) = None
       \<and> remove_fault w (GetWorkspacePath name) = None \<longrightarrow>
      DeleteWorkspace w name s =
        (if files s (GetWorkspacePath name) = None
         then (Returns (Failure ''Workspace does not exist''), s)
         else (Returns Success, s\<lparr>files := (files s)(GetWorkspacePath name := None)\<rparr>)))"
proof (intro conjI impI allI)
  assume "name = []"
  then show "SaveWorkspace w name s =
      Some (Returns (Failure ''Workspace name cannot be empty''), s)"
    by (simp add: SaveWorkspace_def ValidateWorkspaceName_def)
next
  assume "name \<noteq> [] \<and> regex_match_returns w name
       \<and> \<not> set name \<subseteq> set allowed_name_chars"
  then show "SaveWorkspace w name s =
        Some (Returns (Failure
           ''Workspace name can only contain letters, numbers, underscores, and hyphens''), s)"
    by (simp add: SaveWorkspace_def ValidateWorkspaceName_def regex_match_plus_valid)
next
  assume "name \<noteq> [] \<and> regex_match_returns w name
       \<and> set name \<subseteq> set allowed_name_chars"
  then show "ValidateWorkspaceName w name = Some Success" by (simp add: valid_name_passes)
next
  assume "name \<noteq> [] \<and> regex_match_returns w name
       \<and> set name \<subseteq> set allowed_name_chars"
  then show "map_option (\<lambda>r. take (Suc (length (calls s))) (calls (snd r)))
          (SaveWorkspace w name s) = Some (calls s @ [Call_Window_SerializeState])"
    by (simp add: valid_name_passes save_starts_serializing)
next
  assume "\<not> opens_for_reading w (GetWorkspacePath name) \<or> files s (GetWorkspacePath name) = None"
  then show "LoadWorkspace w name s = (Returns (Failure ''Workspace file not found''), s)"
    by (auto simp: LoadWorkspace_def LoadWorkspace_try_def catch_std_def)
next
  fix content
  assume "opens_for_reading w (GetWorkspacePath name)
        \<and> files s (GetWorkspacePath name) = Some content"
  then show "LoadWorkspace w name s =
          (case json_parse w content of
             Returns doc \<Rightarrow> DeserializeAndApplyState w doc s
           | Throws (StdException what) \<Rightarrow>
               (Returns (Failure (''Failed to load workspace: '' @ what)), s)
           | Throws OtherException \<Rightarrow> (Throws OtherException, s))"
    by (simp add: load_of_found_file)
next
  fix content m windows docking toolbars
  assume "opens_for_reading w (GetWorkspacePath name)
        \<and> files s (GetWorkspacePath name) = Some content
        \<and> json_parse w content = Returns (JObject m)
        \<and> m ''version'' = Some (JString ''1.0'')
        \<and> m ''windows'' = Some windows \<and> wm_DeserializeState w windows = Returns Success
        \<and> m ''docking'' = Some docking \<and> dm_DeserializeState w docking = Returns Success
        \<and> m ''toolbars'' = Some toolbars \<and> tm_DeserializeState w toolbars = Returns Success"
  then show "fst (LoadWorkspace w name s) = Returns Success"
    by (simp add: load_defs action_defs)
next
  assume "exists_fault w (GetWorkspacePath name) = None
       \<and> remove_fault w (GetWorkspacePath name) = None"
  then show "DeleteWorkspace w name s =
        (if files s (GetWorkspacePath name) = None
         then (Returns (Failure ''Workspace does not exist''), s)
         else (Returns Success, s\<lparr>files := (files s)(GetWorkspacePath name := None)\<rparr>))"
    by (auto simp: delete_defs action_defs)
qed

theorem name_validation_gates_save_only_witness:
  "SaveWorkspace sample_world [] idle =
     Some (Returns (Failure ''Workspace name cannot be empty''), idle)
   \<and> regex_match_returns sample_world ''a b''
   \<and> SaveWorkspace sample_world ''a b'' idle =
     Some (Returns (Failure
        ''Workspace name can only contain letters, numbers, underscores, and hyphens''), idle)
   \<and> regex_match_returns sample_world ''ok_1-2''
   \<and> ValidateWorkspaceName sample_world ''ok_1-2'' = Some Success
   \<and> map_option fst (SaveWorkspace sample_world ''ok_1-2'' idle) = Some (Returns Success)
   \<and> LoadWorkspace sample_world ''a b'' idle = (Returns (Failure ''Workspace file not found''), idle)
   \<and> fst (LoadWorkspace sample_world ''a b'' spaced_name_state) = Returns Success
   \<and> DeleteWorkspace sample_world ''a b'' spaced_name_state = (Returns Success, idle)
   \<and> DeleteWorkspace sample_world ''a b'' idle =
       (Returns (Failure ''Workspace does not exist''), idle)"
  using name_validation_gates_save_only [of "[]" sample_world idle]
    name_validation_gates_save_only [of "''a b''" sample_world idle]
    name_validation_gates_save_only [of "''ok_1-2''" sample_world idle]
    name_validation_gates_save_only [of "''a b''" sample_world spaced_name_state]
  by (simp add: sample_defs spaced_name_state_def GetWorkspacePath_def allowed_name_chars_def
      save_defs load_defs delete_defs action_defs ValidateWorkspaceName_def
      regex_match_plus_def in_class_def valid_name_class_def)

section \<open>Saving a workspace\<close>

text \<open>
  C9: the document that \<open>SaveWorkspace\<close> writes has \<open>version\<close> "1.0", a \<open>timestamp\<close>
  and the \<open>windows\<close>, \<open>docking\<close> and \<open>toolbars\<close> parts of the three managers. During a
  drag it has a \<open>drag_state\<close> object whose \<open>element_id\<close> and \<open>element_type\<close> are the
  id and the type of the dragged element; without a drag it has no \<open>drag_state\<close> key.
\<close>

theorem saved_document_contents:
  assumes "ValidateWorkspaceName w name = Some Success"
    and "wm_SerializeState w = Returns windows"
    and "dm_SerializeState w = Returns docking"
    and "tm_SerializeState w = Returns toolbars"
    and "opens_for_writing w (GetWorkspacePath name)"
    and "\<And>j. json_dump w j = Returns (render j)"
  shows "\<exists>m. fst (SerializeCurrentState w s) = Returns (JObject m)
          \<and> SaveWorkspace w name s =
              Some (Returns Success,
               s\<lparr>files := (files s)(GetWorkspacePath name \<mapsto> render (JObject m)),
                 calls := calls s @ [Call_Window_SerializeState, Call_Docking_SerializeState,
                                     Call_Toolbar_SerializeState]\<rparr>)
          \<and> m ''version'' = Some (JString ''1.0'')
          \<and> m ''timestamp'' = Some (JInt (clock_now w))
          \<and> m ''windows'' = Some windows
          \<and> m ''docking'' = Some docking
          \<and> m ''toolbars'' = Some toolbars
          \<and> (current_drag s = None \<longrightarrow> m ''drag_state'' = None)
          \<and> (\<forall>d. current_drag s = Some d \<longrightarrow>
                (\<exists>fields. m ''drag_state'' = Some (JObject fields)
                   \<and> fields ''element_id'' = Some (JInt (elem_id d))
                   \<and> fields ''element_type'' = Some (JString (elem_type d))))"
proof (cases "current_drag s")
  case None
  with assms show ?thesis
    by (simp add: save_defs action_defs)
next
  case (Some d)
  with assms show ?thesis
    by (simp add: save_defs action_defs drag_state_json_def)
qed

theorem saved_document_contents_witness:
  "ValidateWorkspaceName sample_world ''drag_test'' = Some Success
   \<and> opens_for_writing sample_world (GetWorkspacePath ''drag_test'')
   \<and> (\<exists>m. fst (SerializeCurrentState sample_world dragging) = Returns (JObject m)
          \<and> map_option fst (SaveWorkspace sample_world ''drag_test'' dragging) =
              Some (Returns Success)
          \<and> m ''version'' = Some (JString ''1.0'')
          \<and> m ''timestamp'' = Some (JInt 1700000000)
          \<and> (\<exists>fields. m ''drag_state'' = Some (JObject fields)
                   \<and> fields ''element_id'' = Some (JInt 1)
                   \<and> fields ''element_type'' = Some (JString ''window'')))
   \<and> (\<exists>m. fst (SerializeCurrentState sample_world idle) = Returns (JObject m)
          \<and> map_option fst (SaveWorkspace sample_world ''drag_test'' idle) =
              Some (Returns Success)
          \<and> m ''drag_state'' = None)"
proof -
  have v: "ValidateWorkspaceName sample_world ''drag_test'' = Some Success"
    by (simp add: ValidateWorkspaceName_def regex_match_plus_def in_class_def
        valid_name_class_def sample_world_def)
  have o: "opens_for_writing sample_world (GetWorkspacePath ''drag_test'')"
    by (simp add: sample_world_def)
  have a: "wm_SerializeState sample_world = Returns (JArray [JInt 1])"
    and b: "dm_SerializeState sample_world = Returns (JArray [JInt 2])"
    and c: "tm_SerializeState sample_world = Returns (JArray [JInt 3])"
    and r: "\<And>j. json_dump sample_world j = Returns ((\<lambda>_. ''<document>'') j)"
    by (simp_all add: sample_world_def)
  have d: "current_drag dragging = Some window_1" "elem_id window_1 = 1"
    "elem_type window_1 = ''window''" "current_drag idle = None"
    "clock_now sample_world = 1700000000"
    by (simp_all add: sample_defs)
  from saved_document_contents [OF v a b c o r, of dragging]
    saved_document_contents [OF v a b c o r, of idle] v o d
  show ?thesis by auto
qed

section \<open>Exceptions at the public operations\<close>

lemma catch_std_handles:
  assumes "\<And>what s. \<exists>r s'. h what s = (Returns r, s')"
  shows "fst (catch_std m h s) \<noteq> Throws (StdException x)"
proof (cases "m s")
  case (Pair r s')
  show ?thesis
  proof (cases r)
    case (Returns a)
    with Pair show ?thesis by (simp add: catch_std_def)
  next
    case (Throws e)
    show ?thesis
    proof (cases e)
      case (StdException what)
      from assms [of what s'] obtain r' s'' where "h what s' = (Returns r', s'')" by blast
      with Pair Throws StdException show ?thesis by (simp add: catch_std_def)
    next
      case OtherException
      with Pair Throws show ?thesis by (simp add: catch_std_def)
    qed
  qed
qed

text \<open>A workspace file \<open>n.json\<close> with a non-empty \<open>n\<close> is listed under the name \<open>n\<close>.\<close>

lemma json_file_name:
  assumes "n \<noteq> []"
  shows "path_extension (n @ ''.json'') = ''.json''" and "path_stem (n @ ''.json'') = n"
proof -
  from assms obtain a n' where n: "n = a # n'" by (cases n) auto
  have dots: "n @ ''.json'' \<noteq> ''.''" "n @ ''.json'' \<noteq> ''..''"
    by (cases n'; simp add: n)+
  from assms have len: "length n \<noteq> 0" by simp
  show ext: "path_extension (n @ ''.json'') = ''.json''"
    using dots len by (simp add: path_extension_def Let_def)
  show "path_stem (n @ ''.json'') = n"
    by (simp add: path_stem_def ext)
qed

lemma listed_names:
  assumes "[] \<notin> set names"
  shows "map path_stem
           (filter (\<lambda>entry. path_extension entry = ''.json'')
              (map (\<lambda>n. n @ ''.json'') names)) = names"
  using assms by (induction names) (auto simp: json_file_name)

text \<open>
  C2, as stated, fails: \<open>GetAvailableWorkspaces\<close> has no handler, so when the
  \<open>workspaces\<close> directory cannot be iterated the exception of the directory iterator
  reaches the caller.
\<close>

theorem missing_directory_counterexample:
  "GetAvailableWorkspaces world_without_directory =
     Throws (StdException ''directory iterator cannot open directory'')"
  by (simp add: GetAvailableWorkspaces_def world_without_directory_def sample_world_def)

text \<open>
  C2, amended. \<open>EndDrag\<close>, \<open>SaveWorkspace\<close> once the name validation has returned,
  \<open>LoadWorkspace\<close> and \<open>DeleteWorkspace\<close> never let a \<open>std::exception\<close> out: whatever
  \<open>std::exception\<close> ends their \<open>try\<close> block, thrown by a manager, the observer, the
  JSON library or the file system, becomes an error whose message is the prefix of the
  handler followed by the exception's text. The prefixes are
  "Failed to complete drag operation: ", "Failed to save workspace: ",
  "Failed to load workspace: " for an exception of opening and parsing the file,
  "Failed to apply workspace state: " for an exception while the parsed document is
  applied (the handler inside \<open>DeserializeAndApplyState\<close> answers first), and
  "Failed to delete workspace: ". \<open>UpdateDragPosition\<close> never throws, and \<open>BeginDrag\<close>
  returns an error value whenever a drag is active or its allocation and its logging
  return. \<open>GetAvailableWorkspaces\<close> returns, whenever the directory can be iterated, the
  stems of the entries with the extension \<open>.json\<close>: for a directory of files \<open>n.json\<close>
  the names \<open>n\<close>.
\<close>

theorem std_exceptions_become_errors:
  "(current_drag s \<noteq> None
    \<or> (allocation_fault w element = None
        \<and> log_info w (elem_type element) (elem_id element) = Returns ()) \<longrightarrow>
      fst (BeginDrag w element s) =
        Returns (if current_drag s = None then Success
                 else Failure ''A drag operation is already in progress''))
   \<and> fst (UpdateDragPosition x y s) \<noteq> Throws e
   \<and> fst (EndDrag w target s) \<noteq> Throws (StdException what)
   \<and> map_option fst (SaveWorkspace w name s) \<noteq> Some (Throws (StdException what))
   \<and> fst (LoadWorkspace w name s) \<noteq> Throws (StdException what)
   \<and> fst (DeleteWorkspace w name s) \<noteq> Throws (StdException what)
   \<and> (current_drag s = Some d
       \<and> EndDrag_try w d target s = (Throws (StdException what), s') \<longrightarrow>
        EndDrag w target s =
          (Returns (Failure (''Failed to complete drag operation: '' @ what)),
           s'\<lparr>current_drag := None\<rparr>))
   \<and> (ValidateWorkspaceName w name = Some Success
       \<and> SaveWorkspace_try w name s = (Throws (StdException what), s') \<longrightarrow>
        SaveWorkspace w name s =
          Some (Returns (Failure (''Failed to save workspace: '' @ what)), s'))
   \<and> (LoadWorkspace_try w name s = (Throws (StdException what), s') \<longrightarrow>
        LoadWorkspace w name s =
          (Returns (Failure (''Failed to load workspace: '' @ what)), s'))
   \<and> (opens_for_reading w (GetWorkspacePath name)
       \<and> files s (GetWorkspacePath name) = Some content
       \<and> json_parse w content = Returns doc
       \<and> DeserializeAndApplyState_try w doc s = (Throws (StdException what), s') \<longrightarrow>
        LoadWorkspace w name s =
          (Returns (Failure (''Failed to apply workspace state: '' @ what)), s'))
   \<and> (DeleteWorkspace_try w name s = (Throws (StdException what), s') \<longrightarrow>
        DeleteWorkspace w name s =
          (Returns (Failure (''Failed to delete workspace: '' @ what)), s'))
   \<and> (directory_entries w ''workspaces'' = Returns entries \<longrightarrow>
        GetAvailableWorkspaces w =
          Returns (map path_stem
                     (filter (\<lambda>entry. path_extension entry = ''.json'') entries)))
   \<and> ([] \<notin> set names
       \<and> directory_entries w ''workspaces'' = Returns (map (\<lambda>n. n @ ''.json'') names) \<longrightarrow>
        GetAvailableWorkspaces w = Returns names)"
proof (intro conjI impI)
  assume "current_drag s \<noteq> None
    \<or> (allocation_fault w element = None
        \<and> log_info w (elem_type element) (elem_id element) = Returns ())"
  then show "fst (BeginDrag w element s) =
        Returns (if current_drag s = None then Success
                 else Failure ''A drag operation is already in progress'')"
    by (auto simp: BeginDrag_def action_defs split: option.splits)
next
  show "fst (UpdateDragPosition x y s) \<noteq> Throws e"
    by (simp add: UpdateDragPosition_def split: option.splits)
  show "fst (EndDrag w target s) \<noteq> Throws (StdException what)"
    unfolding EndDrag_def
    by (cases "current_drag s")
       (simp_all add: catch_std_handles seq_def bind_def clear_drag_def returns_def)
  show "map_option fst (SaveWorkspace w name s) \<noteq> Some (Throws (StdException what))"
    unfolding SaveWorkspace_def
    by (cases "ValidateWorkspaceName w name")
       (simp_all add: catch_std_handles returns_def)
  show "fst (LoadWorkspace w name s) \<noteq> Throws (StdException what)"
    unfolding LoadWorkspace_def by (simp add: catch_std_handles returns_def)
  show "fst (DeleteWorkspace w name s) \<noteq> Throws (StdException what)"
    unfolding DeleteWorkspace_def by (simp add: catch_std_handles returns_def)
next
  assume "current_drag s = Some d
       \<and> EndDrag_try w d target s = (Throws (StdException what), s')"
  then show "EndDrag w target s =
          (Returns (Failure (''Failed to complete drag operation: '' @ what)),
           s'\<lparr>current_drag := None\<rparr>)"
    by (simp add: EndDrag_def action_defs)
next
  assume "ValidateWorkspaceName w name = Some Success
       \<and> SaveWorkspace_try w name s = (Throws (StdException what), s')"
  then show "SaveWorkspace w name s =
          Some (Returns (Failure (''Failed to save workspace: '' @ what)), s')"
    by (simp add: SaveWorkspace_def catch_std_def returns_def)
next
  assume "LoadWorkspace_try w name s = (Throws (StdException what), s')"
  then show "LoadWorkspace w name s =
          (Returns (Failure (''Failed to load workspace: '' @ what)), s')"
    by (simp add: LoadWorkspace_def catch_std_def returns_def)
next
  assume "opens_for_reading w (GetWorkspacePath name)
       \<and> files s (GetWorkspacePath name) = Some content
       \<and> json_parse w content = Returns doc
       \<and> DeserializeAndApplyState_try w doc s = (Throws (StdException what), s')"
  then show "LoadWorkspace w name s =
          (Returns (Failure (''Failed to apply workspace state: '' @ what)), s')"
    by (simp add: LoadWorkspace_def LoadWorkspace_try_def DeserializeAndApplyState_def
        action_defs)
next
  assume "DeleteWorkspace_try w name s = (Throws (StdException what), s')"
  then show "DeleteWorkspace w name s =
          (Returns (Failure (''Failed to delete workspace: '' @ what)), s')"
    by (simp add: DeleteWorkspace_def catch_std_def returns_def)
next
  assume "directory_entries w ''workspaces'' = Returns entries"
  then show "GetAvailableWorkspaces w =
          Returns (map path_stem
                     (filter (\<lambda>entry. path_extension entry = ''.json'') entries))"
    by (simp add: GetAvailableWorkspaces_def)
next
  assume "[] \<notin> set names
       \<and> directory_entries w ''workspaces'' = Returns (map (\<lambda>n. n @ ''.json'') names)"
  then show "GetAvailableWorkspaces w = Returns names"
    by (simp add: GetAvailableWorkspaces_def listed_names)
qed

theorem std_exceptions_become_errors_witness:
  "fst (BeginDrag sample_world window_1 idle) = Returns Success
   \<and> EndDrag_try world_failing_window_move window_1 target_2 dragging =
       (Throws (StdException ''window is gone''),
        dragging\<lparr>calls := [Call_GetMainWindow,
                            Call_UpdateWindowPosition 1 (Finite 200) (Finite 150)]\<rparr>)
   \<and> EndDrag world_failing_window_move target_2 dragging =
       (Returns (Failure ''Failed to complete drag operation: window is gone''),
        idle\<lparr>calls := [Call_GetMainWindow,
                        Call_UpdateWindowPosition 1 (Finite 200) (Finite 150)]\<rparr>)
   \<and> ValidateWorkspaceName world_failing_dump ''drag_test'' = Some Success
   \<and> map_option fst (SaveWorkspace world_failing_dump ''drag_test'' idle) =
       Some (Returns (Failure ''Failed to save workspace: invalid UTF-8 byte''))
   \<and> fst (LoadWorkspace_try sample_world ''corrupted'' corrupted_file_state) =
       Throws (StdException ''parse error'')
   \<and> LoadWorkspace sample_world ''corrupted'' corrupted_file_state =
       (Returns (Failure ''Failed to load workspace: parse error''), corrupted_file_state)
   \<and> json_parse world_failing_window_restore complete_text = Returns complete_document
   \<and> fst (DeserializeAndApplyState_try world_failing_window_restore complete_document
            spaced_name_state) = Throws (StdException ''window layout rejected'')
   \<and> fst (LoadWorkspace world_failing_window_restore ''a b'' spaced_name_state) =
       Returns (Failure ''Failed to apply workspace state: window layout rejected'')
   \<and> fst (DeleteWorkspace_try world_failing_remove ''corrupted'' corrupted_file_state) =
       Throws (StdException ''Permission denied'')
   \<and> DeleteWorkspace world_failing_remove ''corrupted'' corrupted_file_state =
       (Returns (Failure ''Failed to delete workspace: Permission denied''),
        corrupted_file_state)
   \<and> GetAvailableWorkspaces sample_world = Returns [''workspace1'']
   \<and> GetAvailableWorkspaces world_three_workspaces =
       Returns [''workspace1'', ''workspace2'', ''workspace3'']"
proof -
  note at_drag = std_exceptions_become_errors
    [where w = world_failing_window_move and s = dragging and d = window_1
       and target = target_2 and what = "''window is gone''" and element = window_1
       and s' = "dragging\<lparr>calls := [Call_GetMainWindow,
                   Call_UpdateWindowPosition 1 (Finite 200) (Finite 150)]\<rparr>"]
  note at_begin = std_exceptions_become_errors
    [where w = sample_world and s = idle and element = window_1]
  note at_save = std_exceptions_become_errors
    [where w = world_failing_dump and s = idle and name = "''drag_test''"
       and what = "''invalid UTF-8 byte''"
       and s' = "snd (SaveWorkspace_try world_failing_dump ''drag_test'' idle)"]
  note at_load = std_exceptions_become_errors
    [where w = sample_world and s = corrupted_file_state and name = "''corrupted''"
       and what = "''parse error''" and s' = corrupted_file_state]
  note at_apply = std_exceptions_become_errors
    [where w = world_failing_window_restore and s = spaced_name_state and name = "''a b''"
       and what = "''window layout rejected''" and content = complete_text
       and doc = complete_document
       and s' = "spaced_name_state\<lparr>calls :=
                   [Call_Window_DeserializeState (JArray [JInt 1])]\<rparr>"]
  note at_delete = std_exceptions_become_errors
    [where w = world_failing_remove and s = corrupted_file_state and name = "''corrupted''"
       and what = "''Permission denied''" and s' = corrupted_file_state]
  note at_list = std_exceptions_become_errors
    [where w = sample_world and entries = "[''workspace1.json'', ''notes.txt'']"]
  note at_names = std_exceptions_become_errors
    [where w = world_three_workspaces
       and names = "[''workspace1'', ''workspace2'', ''workspace3'']"]
  have worlds:
    "world_failing_window_move =
       sample_world\<lparr>wm_UpdateWindowPosition :=
         (\<lambda>_ _ _. Throws (StdException ''window is gone''))\<rparr>"
    "world_failing_dump =
       sample_world\<lparr>json_dump := (\<lambda>_. Throws (StdException ''invalid UTF-8 byte''))\<rparr>"
    "world_failing_window_restore =
       sample_world\<lparr>wm_DeserializeState :=
         (\<lambda>_. Throws (StdException ''window layout rejected''))\<rparr>"
    "world_failing_remove = sample_world\<lparr>remove_fault := (\<lambda>_. Some ''Permission denied'')\<rparr>"
    "world_three_workspaces =
       sample_world\<lparr>directory_entries :=
         (\<lambda>_. Returns [''workspace1.json'', ''workspace2.json'', ''workspace3.json''])\<rparr>"
    by (simp_all add: world_failing_window_move_def world_failing_dump_def
        world_failing_window_restore_def world_failing_remove_def world_three_workspaces_def)
  have c1: "fst (BeginDrag sample_world window_1 idle) = Returns Success"
    using at_begin by (simp add: sample_defs)
  have c2: "EndDrag_try world_failing_window_move window_1 target_2 dragging =
       (Throws (StdException ''window is gone''),
        dragging\<lparr>calls := [Call_GetMainWindow,
                            Call_UpdateWindowPosition 1 (Finite 200) (Finite 150)]\<rparr>)"
    by (simp add: worlds drag_defs action_defs sample_defs)
  have c3: "EndDrag world_failing_window_move target_2 dragging =
       (Returns (Failure ''Failed to complete drag operation: window is gone''),
        idle\<lparr>calls := [Call_GetMainWindow,
                        Call_UpdateWindowPosition 1 (Finite 200) (Finite 150)]\<rparr>)"
    using at_drag c2 by (simp add: sample_defs)
  have c4: "ValidateWorkspaceName world_failing_dump ''drag_test'' = Some Success"
    by (simp add: worlds ValidateWorkspaceName_def regex_match_plus_def in_class_def
        valid_name_class_def sample_world_def)
  have c5': "fst (SaveWorkspace_try world_failing_dump ''drag_test'' idle) =
       Throws (StdException ''invalid UTF-8 byte'')"
    by (simp add: worlds save_defs action_defs sample_defs GetWorkspacePath_def)
  have c5: "map_option fst (SaveWorkspace world_failing_dump ''drag_test'' idle) =
       Some (Returns (Failure ''Failed to save workspace: invalid UTF-8 byte''))"
    using at_save c4 c5' by (simp add: prod_eq_iff)
  have c6: "LoadWorkspace_try sample_world ''corrupted'' corrupted_file_state =
       (Throws (StdException ''parse error''), corrupted_file_state)"
    by (simp add: load_defs action_defs sample_defs corrupted_file_state_def
        GetWorkspacePath_def)
  have c7: "LoadWorkspace sample_world ''corrupted'' corrupted_file_state =
       (Returns (Failure ''Failed to load workspace: parse error''), corrupted_file_state)"
    using at_load c6 by simp
  have c8: "json_parse world_failing_window_restore complete_text = Returns complete_document"
    by (simp add: worlds sample_defs)
  have c9: "DeserializeAndApplyState_try world_failing_window_restore complete_document
            spaced_name_state =
       (Throws (StdException ''window layout rejected''),
        spaced_name_state\<lparr>calls := [Call_Window_DeserializeState (JArray [JInt 1])]\<rparr>)"
    by (simp add: worlds load_defs action_defs sample_defs spaced_name_state_def)
  have c10: "fst (LoadWorkspace world_failing_window_restore ''a b'' spaced_name_state) =
       Returns (Failure ''Failed to apply workspace state: window layout rejected'')"
    using at_apply c8 c9
    by (simp add: worlds sample_world_def spaced_name_state_def idle_def GetWorkspacePath_def)
  have c11: "DeleteWorkspace_try world_failing_remove ''corrupted'' corrupted_file_state =
       (Throws (StdException ''Permission denied''), corrupted_file_state)"
    by (simp add: worlds delete_defs action_defs sample_defs corrupted_file_state_def
        GetWorkspacePath_def)
  have c12: "DeleteWorkspace world_failing_remove ''corrupted'' corrupted_file_state =
       (Returns (Failure ''Failed to delete workspace: Permission denied''),
        corrupted_file_state)"
    using at_delete c11 by simp
  have c13: "GetAvailableWorkspaces sample_world = Returns [''workspace1'']"
    using at_list by (simp add: sample_world_def path_extension_def path_stem_def)
  have c14: "GetAvailableWorkspaces world_three_workspaces =
       Returns [''workspace1'', ''workspace2'', ''workspace3'']"
    using at_names by (simp add: worlds sample_world_def)
  from c1 c2 c3 c4 c5 c6 c7 c8 c9 c10 c11 c12 c13 c14 show ?thesis by simp
qed

end
